theory Spec2Isabelle
  imports Main
begin

section \<open>Python values and exceptions\<close>

text \<open>
  The module \<^verbatim>\<open>proxy_admin.py\<close> is a subclass of the admin framework's ModelAdmin.
  Every raise of the source, and every exception a builtin operation of the source can
  raise (a missing dictionary key, an index out of range, a failed int conversion, a
  missing attribute), is a value of \<open>py_exception\<close>; an operation returns
  \<open>py_exception + 'a\<close>, with \<open>Inl\<close> for a raise. An exception class of the framework
  that the module never names is \<open>FrameworkError\<close> with the class name.
  \<open>DoesNotExist\<close> is \<^verbatim>\<open>base_model.DoesNotExist\<close>. In Python NotImplementedError is a
  subclass of RuntimeError; no handler of the module catches either.
\<close>

datatype py_exception =
    Http404
  | PermissionDenied
  | RuntimeError
  | NotImplementedError
  | TypeError
  | KeyError
  | IndexError
  | ValueError
  | AttributeError
  | OverflowError
  | DoesNotExist
  | FrameworkError string

text \<open>
  \<^verbatim>\<open>try: body except caught: raise raised\<close>. The exception classes the module
  catches (DoesNotExist, IndexError, KeyError, AttributeError) have no subclass among
  the exceptions modelled here, so a handler catches exactly the class it names.
\<close>

definition try_except :: "py_exception + 'a \<Rightarrow> py_exception \<Rightarrow> py_exception \<Rightarrow> py_exception + 'a" where
  "try_except body caught raised =
     (case body of
        Inl e \<Rightarrow> if e = caught then Inl raised else Inl e
      | Inr v \<Rightarrow> Inr v)"

text \<open>\<^verbatim>\<open>d[k]\<close> on a dictionary raises KeyError for a missing key.\<close>

definition dict_getitem :: "('k \<rightharpoonup> 'v) \<Rightarrow> 'k \<Rightarrow> py_exception + 'v" where
  "dict_getitem d k = (case d k of None \<Rightarrow> Inl KeyError | Some v \<Rightarrow> Inr v)"

text \<open>\<^verbatim>\<open>dict(pairs)\<close>: the pairs are stored in order, a later pair replacing an earlier
  one with the same key.\<close>

definition dict_of_pairs :: "('k \<times> 'v) list \<Rightarrow> ('k \<rightharpoonup> 'v)" where
  "dict_of_pairs kvs = foldl (\<lambda>d (k, v). d(k \<mapsto> v)) Map.empty kvs"

text \<open>\<^verbatim>\<open>s.find(c)\<close>: the index of the first occurrence, or -1.\<close>

definition str_find :: "string \<Rightarrow> char \<Rightarrow> int" where
  "str_find s c = (if c \<in> set s then int (length (takeWhile (\<lambda>x. x \<noteq> c) s)) else - 1)"

text \<open>\<^verbatim>\<open>'{0}'.format(n)\<close> and \<^verbatim>\<open>str(n)\<close> of an integer: its decimal digits, with a
  minus sign when negative.\<close>

fun digits_of :: "nat \<Rightarrow> string" where
  "digits_of n =
     (if n < 10 then [char_of (48 + n)]
      else digits_of (n div 10) @ [char_of (48 + n mod 10)])"

declare digits_of.simps [simp del]

definition str_of_int :: "int \<Rightarrow> string" where
  "str_of_int i = (if i < 0 then CHR ''-'' # digits_of (nat (- i)) else digits_of (nat i))"

text \<open>\<^verbatim>\<open>s.lower()\<close> on the ASCII letters of a class name.\<close>

definition str_lower :: "string \<Rightarrow> string" where
  "str_lower s =
     map (\<lambda>c. let n = (of_char c :: nat) in if 65 \<le> n \<and> n \<le> 90 then char_of (n + 32) else c) s"

section \<open>Requests, responses and child admins\<close>

text \<open>
  An object id reaches the module either as the text captured from the URL
  (\<^verbatim>\<open>change_view\<close>) or as the integer \<^verbatim>\<open>long(...)\<close> computed by \<^verbatim>\<open>subclass_view\<close>.
\<close>

datatype object_id = IdText string | IdLong int


record request =
  GET :: "string \<rightharpoonup> string"
  POST :: "string \<rightharpoonup> string"
  META :: "string \<rightharpoonup> string"
  http_method :: string

datatype response = HttpResponse string | HttpResponseRedirect string

type_synonym view_args = "string list \<times> (string \<times> string) list"

type_synonym extra_context = "(string \<times> string) list option"

datatype view_ref = ChangeView | SubclassView | OtherView string

record url_pattern =
  pattern_regex :: string
  pattern_view :: view_ref
  pattern_name :: "string option"

text \<open>
  A registered admin instance, as far as this module calls it: its three views and its
  URL patterns (\<^verbatim>\<open>urls\<close> is the framework's property for \<^verbatim>\<open>get_urls()\<close>).
\<close>

record model_admin =
  adm_add_view :: "request \<Rightarrow> string \<Rightarrow> extra_context \<Rightarrow> py_exception + response"
  adm_change_view :: "request \<Rightarrow> object_id \<Rightarrow> view_args \<Rightarrow> py_exception + response"
  adm_changeform_view :: "request \<Rightarrow> object_id \<Rightarrow> view_args \<Rightarrow> py_exception + response"
  adm_get_urls :: "url_pattern list"

record resolver_match =
  func :: "request \<Rightarrow> view_args \<Rightarrow> py_exception + response"
  match_args :: view_args

record model_options =
  app_label :: string
  model_name :: string
  object_name :: string
  verbose_name :: string

record choice_form =
  form_data :: "(string \<rightharpoonup> string) option"
  form_initial :: int
  form_choices :: "(int \<times> string) list"

text \<open>The template context: the keys \<^verbatim>\<open>add_type_view\<close> sets, and the keys
  \<^verbatim>\<open>render_add_type_form\<close> adds with \<^verbatim>\<open>context.update\<close>.\<close>

record add_type_context =
  ctx_title :: string
  ctx_adminform :: choice_form
  ctx_is_popup :: bool
  ctx_media :: string
  ctx_errors :: choice_form
  ctx_app_label :: string

record render_context = add_type_context +
  ctx_has_change_permission :: bool
  ctx_form_url :: string
  ctx_opts :: model_options
  ctx_add :: bool
  ctx_save_on_top :: bool

section \<open>The host framework\<close>

text \<open>
  What the module calls and does not define: Python's \<^verbatim>\<open>int\<close> and \<^verbatim>\<open>long\<close> on text
  (\<open>None\<close> when they raise ValueError), \<^verbatim>\<open>issubclass\<close>, the admin site's
  \<^verbatim>\<open>register\<close> (an exception, or the registry with the new admin instance), the
  model metadata, the inherited permission checks, \<^verbatim>\<open>add_preserved_filters\<close>, the URL
  resolver, the form's validation (\<open>Some\<close> of the cleaned type when \<^verbatim>\<open>is_valid()\<close>),
  template rendering, the inherited \<^verbatim>\<open>get_urls\<close> and \<^verbatim>\<open>changeform_view\<close>, and the
  first two components of \<^verbatim>\<open>django.VERSION\<close>. They are parameters: every theorem
  below holds for any framework.
\<close>

record ('m, 'ac) framework =
  py_int :: "string \<Rightarrow> int option"
  py_long :: "string \<Rightarrow> int option"
  issubclass_model :: "'m \<Rightarrow> 'm \<Rightarrow> bool"
  issubclass_ModelAdmin :: "'ac \<Rightarrow> bool"
  site_register :: "'m \<Rightarrow> 'ac \<Rightarrow> ('m \<rightharpoonup> model_admin) \<Rightarrow> py_exception + ('m \<rightharpoonup> model_admin)"
  meta_of :: "'m \<Rightarrow> model_options"
  has_add_permission :: "request \<Rightarrow> bool"
  has_change_permission :: "request \<Rightarrow> bool"
  add_preserved_filters :: "string \<Rightarrow> model_options \<Rightarrow> string \<Rightarrow> string"
  resolve :: "url_pattern list \<Rightarrow> string \<Rightarrow> py_exception + resolver_match option"
  form_clean :: "choice_form \<Rightarrow> string option"
  add_title :: "string \<Rightarrow> string"
  admin_media :: "choice_form \<Rightarrow> string"
  render_to_response :: "string list \<Rightarrow> render_context \<Rightarrow> py_exception + response"
  super_get_urls :: "url_pattern list"
  super_changeform_view :: "request \<Rightarrow> object_id option \<Rightarrow> view_args \<Rightarrow> py_exception + response"
  VERSION :: "nat \<times> nat"

section \<open>ParentModelAdmin\<close>

text \<open>
  The instance: the class attributes (\<open>base_model\<close>, \<open>child_models\<close>,
  \<open>type_field_name\<close>, \<open>add_type_template\<close>, each \<^verbatim>\<open>None\<close> by default except that the
  class docstring requires \<open>base_model\<close> to be defined, which the embedding takes as
  given), the model the admin is registered for, the answer of
  \<^verbatim>\<open>base_model.objects.get(id=...)\<close> for every object id (the row, which maps its
  attribute names to integer values, or the exception the lookup raises: DoesNotExist
  when no row has the id, and whatever the lookup raises for an id it cannot convert,
  such as ValueError for text that is no number or OverflowError for a number out of
  range), the registry of the admin site, and
  the three attributes \<^verbatim>\<open>__init__\<close> and \<^verbatim>\<open>_lazy_setup\<close> assign. Isabelle names cannot
  start with an underscore: \<^verbatim>\<open>_is_setup\<close> is \<open>is_setup\<close>, \<^verbatim>\<open>_child_models\<close> is
  \<open>child_models_dict\<close> (\<open>None\<close> while the attribute is not yet assigned), and
  \<^verbatim>\<open>_child_admin_site._registry\<close> is \<open>child_admin_site_registry\<close>.
\<close>

record ('m, 'ac) parent_model_admin =
  base_model :: 'm
  child_models :: "(int \<times> 'm \<times> 'ac) list option"
  type_field_name :: "string option"
  add_type_template :: "string option"
  save_on_top :: bool
  model :: 'm
  objects_get :: "object_id \<Rightarrow> py_exception + (string \<rightharpoonup> int)"
  admin_site_registry :: "'m \<rightharpoonup> model_admin"
  child_admin_site_registry :: "'m \<rightharpoonup> model_admin"
  is_setup :: bool
  child_models_dict :: "(int \<rightharpoonup> 'm \<times> 'ac) option"

text \<open>\<^verbatim>\<open>__init__\<close>: a fresh child admin site, and \<^verbatim>\<open>_is_setup = False\<close>.\<close>

definition init :: "('m, 'ac) parent_model_admin \<Rightarrow> 'm \<Rightarrow> ('m \<rightharpoonup> model_admin) \<Rightarrow> ('m, 'ac) parent_model_admin" where
  "init cls mdl site_registry =
     cls\<lparr>model := mdl, admin_site_registry := site_registry,
         child_admin_site_registry := Map.empty, is_setup := False,
         child_models_dict := None\<rparr>"

definition get_child_models :: "('m, 'ac) parent_model_admin \<Rightarrow> py_exception + (int \<times> 'm \<times> 'ac) list" where
  "get_child_models self =
     (case child_models self of
        None \<Rightarrow> Inl NotImplementedError
      | Some cms \<Rightarrow> Inr cms)"

definition register_child ::
  "('m, 'ac) framework \<Rightarrow> 'm \<Rightarrow> 'ac \<Rightarrow> ('m, 'ac) parent_model_admin \<Rightarrow>
     (py_exception + unit) \<times> ('m, 'ac) parent_model_admin" where
  "register_child fw mdl mdl_admin self =
     (if is_setup self then (Inl RuntimeError, self)
      else if \<not> issubclass_model fw mdl (base_model self) then (Inl TypeError, self)
      else if \<not> issubclass_ModelAdmin fw mdl_admin then (Inl TypeError, self)
      else (case site_register fw mdl mdl_admin (child_admin_site_registry self) of
              Inl e \<Rightarrow> (Inl e, self)
            | Inr reg \<Rightarrow> (Inr (), self\<lparr>child_admin_site_registry := reg\<rparr>)))"

text \<open>The loop of \<^verbatim>\<open>_lazy_setup\<close> over the child models; a raise leaves the children
  registered so far in place.\<close>

fun register_children ::
  "('m, 'ac) framework \<Rightarrow> (int \<times> 'm \<times> 'ac) list \<Rightarrow> ('m, 'ac) parent_model_admin \<Rightarrow>
     (py_exception + unit) \<times> ('m, 'ac) parent_model_admin" where
  "register_children fw [] self = (Inr (), self)"
| "register_children fw ((k, mdl, mdl_admin) # rest) self =
     (case register_child fw mdl mdl_admin self of
        (Inl e, self') \<Rightarrow> (Inl e, self')
      | (Inr u, self') \<Rightarrow> register_children fw rest self')"

definition lazy_setup ::
  "('m, 'ac) framework \<Rightarrow> ('m, 'ac) parent_model_admin \<Rightarrow>
     (py_exception + unit) \<times> ('m, 'ac) parent_model_admin" where
  "lazy_setup fw self =
     (if is_setup self then (Inr (), self)
      else (case get_child_models self of
              Inl e \<Rightarrow> (Inl e, self)
            | Inr cms \<Rightarrow>
                (case register_children fw cms self of
                   (Inl e, self') \<Rightarrow> (Inl e, self')
                 | (Inr u, self') \<Rightarrow>
                     (Inr (),
                      self'\<lparr>child_models_dict := Some (dict_of_pairs cms),
                            child_admin_site_registry :=
                              admin_site_registry self' ++ child_admin_site_registry self',
                            is_setup := True\<rparr>))))"

definition get_child_type_choices ::
  "('m, 'ac) framework \<Rightarrow> ('m, 'ac) parent_model_admin \<Rightarrow> py_exception + (int \<times> string) list" where
  "get_child_type_choices fw self =
     (case get_child_models self of
        Inl e \<Rightarrow> Inl e
      | Inr cms \<Rightarrow> Inr (map (\<lambda>(key, mdl, _). (key, verbose_name (meta_of fw mdl))) cms))"

text \<open>
  \<^verbatim>\<open>_get_real_admin\<close>. The first \<^verbatim>\<open>try\<close> reads \<^verbatim>\<open>self._child_models[type_value]\<close>
  and handles IndexError; the second reads the registry and handles KeyError.
\<close>

definition get_real_admin :: "('m, 'ac) parent_model_admin \<Rightarrow> int \<Rightarrow> py_exception + model_admin" where
  "get_real_admin self type_value =
     (case try_except
             (case child_models_dict self of
                None \<Rightarrow> Inl AttributeError
              | Some d \<Rightarrow> dict_getitem d type_value)
             IndexError Http404 of
        Inl e \<Rightarrow> Inl e
      | Inr (mdl, _) \<Rightarrow>
          try_except (dict_getitem (child_admin_site_registry self) mdl) KeyError RuntimeError)"

text \<open>\<^verbatim>\<open>int(request.GET.get('type', 0))\<close>: 0 when the parameter is absent, ValueError
  when its text is not an integer.\<close>

definition get_type_param :: "('m, 'ac) framework \<Rightarrow> request \<Rightarrow> py_exception + int" where
  "get_type_param fw req =
     (case GET req ''type'' of
        None \<Rightarrow> Inr 0
      | Some s \<Rightarrow> (case py_int fw s of None \<Rightarrow> Inl ValueError | Some n \<Rightarrow> Inr n))"

text \<open>\<^verbatim>\<open>getattr(obj, name)\<close>: TypeError when the name is not a string, AttributeError
  when the object has no such attribute.\<close>

definition getattr :: "(string \<rightharpoonup> int) \<Rightarrow> string option \<Rightarrow> py_exception + int" where
  "getattr obj name =
     (case name of
        None \<Rightarrow> Inl TypeError
      | Some n \<Rightarrow> (case obj n of None \<Rightarrow> Inl AttributeError | Some v \<Rightarrow> Inr v))"

text \<open>
  \<^verbatim>\<open>_get_type_by_object_id\<close>. The first \<^verbatim>\<open>try\<close> handles only
  \<^verbatim>\<open>base_model.DoesNotExist\<close>; any other exception of the lookup propagates.
\<close>

definition get_type_by_object_id :: "('m, 'ac) parent_model_admin \<Rightarrow> object_id \<Rightarrow> py_exception + int" where
  "get_type_by_object_id self oid =
     (case try_except (objects_get self oid) DoesNotExist Http404 of
        Inl e \<Rightarrow> Inl e
      | Inr obj \<Rightarrow> try_except (getattr obj (type_field_name self)) AttributeError NotImplementedError)"

definition default_templates :: "model_options \<Rightarrow> string list" where
  "default_templates opts =
     [''admin/'' @ app_label opts @ ''/'' @ str_lower (object_name opts) @ ''/add_type_form.html'',
      ''admin/'' @ app_label opts @ ''/add_type_form.html'',
      ''admin/add_type_form.html'']"

definition render_add_type_form ::
  "('m, 'ac) framework \<Rightarrow> ('m, 'ac) parent_model_admin \<Rightarrow> request \<Rightarrow> add_type_context \<Rightarrow> string \<Rightarrow>
     py_exception + response" where
  "render_add_type_form fw self req context form_url =
     (let opts = meta_of fw (model self) in
      render_to_response fw
        (case add_type_template self of
           None \<Rightarrow> default_templates opts
         | Some t \<Rightarrow> if t \<noteq> [] then [t] else default_templates opts)
        (add_type_context.extend context
           (render_context.fields (has_change_permission fw req) form_url opts True (save_on_top self))))"

definition add_type_view ::
  "('m, 'ac) framework \<Rightarrow> ('m, 'ac) parent_model_admin \<Rightarrow> request \<Rightarrow> string \<Rightarrow> py_exception + response" where
  "add_type_view fw self req form_url =
     (if \<not> has_add_permission fw req then Inl PermissionDenied
      else (case dict_getitem (META req) ''QUERY_STRING'' of
              Inl e \<Rightarrow> Inl e
            | Inr qs \<Rightarrow>
                (let extra_qs = (if qs \<noteq> [] then ''&'' @ qs else []) in
                 (case get_child_type_choices fw self of
                    Inl e \<Rightarrow> Inl e
                  | Inr choices \<Rightarrow>
                      if length choices = 1
                      then Inr (HttpResponseRedirect (''?type='' @ str_of_int (fst (hd choices)) @ extra_qs))
                      else (case choices of
                              [] \<Rightarrow> Inl IndexError
                            | c # _ \<Rightarrow>
                                (let form = \<lparr>form_data = (if http_method req = ''POST'' then Some (POST req) else None),
                                             form_initial = fst c, form_choices = choices\<rparr> in
                                 (case form_clean fw form of
                                    Some cleaned \<Rightarrow> Inr (HttpResponseRedirect (''?type='' @ cleaned @ extra_qs))
                                  | None \<Rightarrow>
                                      (let opts = meta_of fw (model self) in
                                       render_add_type_form fw self req
                                         \<lparr>ctx_title = add_title fw (verbose_name opts),
                                          ctx_adminform = form,
                                          ctx_is_popup = (''_popup'' \<in> dom (POST req) \<or> ''_popup'' \<in> dom (GET req)),
                                          ctx_media = admin_media fw form,
                                          ctx_errors = form,
                                          ctx_app_label = app_label opts\<rparr>
                                         form_url))))))))"

text \<open>\<^verbatim>\<open>urlencode({'type': type_value})\<close> of an integer: digits and the minus sign are
  not quoted.\<close>

definition urlencode_type :: "int \<Rightarrow> string" where
  "urlencode_type type_value = ''type='' @ str_of_int type_value"

definition add_view ::
  "('m, 'ac) framework \<Rightarrow> ('m, 'ac) parent_model_admin \<Rightarrow> request \<Rightarrow> string \<Rightarrow> extra_context \<Rightarrow>
     py_exception + response" where
  "add_view fw self req form_url extra =
     (case get_type_param fw req of
        Inl e \<Rightarrow> Inl e
      | Inr type_value \<Rightarrow>
          if type_value = 0 then add_type_view fw self req []
          else (case get_real_admin self type_value of
                  Inl e \<Rightarrow> Inl e
                | Inr real_admin \<Rightarrow>
                    adm_add_view real_admin req
                      (add_preserved_filters fw (urlencode_type type_value) (meta_of fw (model self)) form_url)
                      extra))"

definition change_view ::
  "('m, 'ac) parent_model_admin \<Rightarrow> request \<Rightarrow> object_id \<Rightarrow> view_args \<Rightarrow> py_exception + response" where
  "change_view self req oid args =
     (case get_type_by_object_id self oid of
        Inl e \<Rightarrow> Inl e
      | Inr type_value \<Rightarrow>
          (case get_real_admin self type_value of
             Inl e \<Rightarrow> Inl e
           | Inr real_admin \<Rightarrow> adm_change_view real_admin req oid args))"

text \<open>Comparison of \<^verbatim>\<open>django.VERSION\<close> with a pair: tuples compare lexicographically,
  and a longer tuple with an equal prefix is the greater one.\<close>

definition version_lt :: "nat \<times> nat \<Rightarrow> nat \<times> nat \<Rightarrow> bool" where
  "version_lt v w = (fst v < fst w \<or> (fst v = fst w \<and> snd v < snd w))"


definition name_truthy :: "url_pattern \<Rightarrow> bool" where
  "name_truthy pat = (case pattern_name pat of None \<Rightarrow> False | Some n \<Rightarrow> n \<noteq> [])"

definition new_change_url :: "model_options \<Rightarrow> url_pattern" where
  "new_change_url opts =
     \<lparr>pattern_regex = ''^('' @ [char_of (92::nat)] @ ''d+|__fk__)/$'',
      pattern_view = ChangeView,
      pattern_name = Some (app_label opts @ ''_'' @ model_name opts @ ''_change'')\<rparr>"

text \<open>The last loop of \<^verbatim>\<open>get_urls\<close>: the URL patterns of every child admin.\<close>

fun dummy_urls :: "('m, 'ac) parent_model_admin \<Rightarrow> (int \<times> 'm \<times> 'ac) list \<Rightarrow> py_exception + url_pattern list" where
  "dummy_urls self [] = Inr []"
| "dummy_urls self ((type_value, _) # rest) =
     (case get_real_admin self type_value of
        Inl e \<Rightarrow> Inl e
      | Inr adm \<Rightarrow>
          (case dummy_urls self rest of
             Inl e \<Rightarrow> Inl e
           | Inr us \<Rightarrow> Inr (adm_get_urls adm @ us)))"

definition get_urls ::
  "('m, 'ac) framework \<Rightarrow> ('m, 'ac) parent_model_admin \<Rightarrow>
     (py_exception + url_pattern list) \<times> ('m, 'ac) parent_model_admin" where
  "get_urls fw self =
     (let urls0 = super_get_urls fw;
          new_url = new_change_url (meta_of fw (model self));
          urls = (if version_lt (VERSION fw) (1, 9)
                  then map (\<lambda>oldurl. if pattern_name oldurl = pattern_name new_url then new_url else oldurl) urls0
                  else filter name_truthy urls0);
          redirect_urls = (if version_lt (VERSION fw) (1, 9) then []
                           else filter (\<lambda>pat. \<not> name_truthy pat) urls0);
          custom_urls = [\<lparr>pattern_regex = ''^(?P<path>.+)$'', pattern_view = SubclassView,
                          pattern_name = None\<rparr>]
      in (case lazy_setup fw self of
            (Inl e, self') \<Rightarrow> (Inl e, self')
          | (Inr u, self') \<Rightarrow>
              (case get_child_models self' of
                 Inl e \<Rightarrow> (Inl e, self')
               | Inr cms \<Rightarrow>
                   (case dummy_urls self' cms of
                      Inl e \<Rightarrow> (Inl e, self')
                    | Inr dummy \<Rightarrow> (Inr (urls @ custom_urls @ dummy @ redirect_urls), self')))))"

text \<open>The text \<^verbatim>\<open>subclass_view\<close> converts with \<^verbatim>\<open>long\<close>: the whole path when it has no
  \<^verbatim>\<open>/\<close>, else \<^verbatim>\<open>path[0:pos]\<close>.\<close>

definition object_id_text :: "string \<Rightarrow> string" where
  "object_id_text path =
     (let pos = str_find path CHR ''/'' in
      if pos = - 1 then path else take (nat pos) path)"

definition subclass_view ::
  "('m, 'ac) framework \<Rightarrow> ('m, 'ac) parent_model_admin \<Rightarrow> request \<Rightarrow> string \<Rightarrow> py_exception + response" where
  "subclass_view fw self req path =
     (case get_type_param fw req of
        Inl e \<Rightarrow> Inl e
      | Inr type0 \<Rightarrow>
          (case (if type0 = 0
                 then (case py_long fw (object_id_text path) of
                         None \<Rightarrow> Inl Http404
                       | Some n \<Rightarrow> get_type_by_object_id self (IdLong n))
                 else Inr type0) of
             Inl e \<Rightarrow> Inl e
           | Inr type_value \<Rightarrow>
               (case get_real_admin self type_value of
                  Inl e \<Rightarrow> Inl e
                | Inr real_admin \<Rightarrow>
                    (case resolve fw (adm_get_urls real_admin) path of
                       Inl e \<Rightarrow> Inl e
                     | Inr None \<Rightarrow> Inl Http404
                     | Inr (Some m) \<Rightarrow> func m req (match_args m)))))"

section \<open>The claim's wording of the path segment\<close>

text \<open>The path's segment before the first \<^verbatim>\<open>/\<close>, as the specification words it: the
  characters of the path up to, and without, its first slash.\<close>

definition segment_before_slash :: "string \<Rightarrow> string" where
  "segment_before_slash path = takeWhile (\<lambda>c. c \<noteq> CHR ''/'') path"



section \<open>An example installation\<close>

text \<open>
  A base model \<open>Shape\<close> with the proxies \<open>Circle\<close> (type 1) and \<open>Square\<close> (type 2), a
  model \<open>Invoice\<close> that is no subclass of \<open>Shape\<close>, and a framework whose \<open>int\<close> reads
  plain decimal digits, whose site refuses a second registration of a model, and whose
  resolver answers with the view of the first pattern. The rows 7, 8 and 9 of \<open>Shape\<close>
  have the types 1, 2 and 5; row 10 has no \<open>kind\<close> attribute. The lookup by id raises
  DoesNotExist for a number that is no row's id, and ValueError for text that is no
  number, as the framework's integer primary key does.
\<close>

datatype example_model = Shape | Circle | Square | Invoice

datatype example_admin_class = CircleAdmin | SquareAdmin | PlainObject

definition example_admin :: "string \<Rightarrow> model_admin" where
  "example_admin label =
     \<lparr>adm_add_view = (\<lambda>req form_url extra. Inr (HttpResponse (label @ '' add '' @ form_url))),
      adm_change_view = (\<lambda>req oid args. Inr (HttpResponse (label @ '' change''))),
      adm_changeform_view = (\<lambda>req oid args. Inr (HttpResponse (label @ '' changeform''))),
      adm_get_urls = [\<lparr>pattern_regex = ''^(.+)/$'', pattern_view = OtherView label,
                       pattern_name = Some (label @ ''_change'')\<rparr>]\<rparr>"

fun example_label :: "example_admin_class \<Rightarrow> string" where
  "example_label CircleAdmin = ''circle''"
| "example_label SquareAdmin = ''square''"
| "example_label PlainObject = ''plain''"

definition example_register ::
  "example_model \<Rightarrow> example_admin_class \<Rightarrow> (example_model \<rightharpoonup> model_admin) \<Rightarrow>
     py_exception + (example_model \<rightharpoonup> model_admin)" where
  "example_register mdl ac reg =
     (if reg mdl \<noteq> None then Inl (FrameworkError ''AlreadyRegistered'')
      else Inr (reg(mdl \<mapsto> example_admin (example_label ac))))"

definition digit_value :: "char \<Rightarrow> nat option" where
  "digit_value c = (let n = (of_char c :: nat) in if 48 \<le> n \<and> n \<le> 57 then Some (n - 48) else None)"

fun parse_digits :: "string \<Rightarrow> nat \<Rightarrow> nat option" where
  "parse_digits [] acc = Some acc"
| "parse_digits (c # cs) acc =
     (case digit_value c of None \<Rightarrow> None | Some d \<Rightarrow> parse_digits cs (10 * acc + d))"

definition example_int :: "string \<Rightarrow> int option" where
  "example_int s = (if s = [] then None else map_option int (parse_digits s 0))"

definition example_resolve :: "url_pattern list \<Rightarrow> string \<Rightarrow> py_exception + resolver_match option" where
  "example_resolve urls path =
     (case urls of
        [] \<Rightarrow> Inl Http404
      | pat # _ \<Rightarrow>
          Inr (Some \<lparr>func = (\<lambda>req args. Inr (HttpResponse ((case pattern_name pat of None \<Rightarrow> [] | Some n \<Rightarrow> n) @ '' '' @ path))),
                     match_args = ([path], [])\<rparr>))"

definition example_meta :: "example_model \<Rightarrow> model_options" where
  "example_meta mdl =
     (case mdl of
        Shape \<Rightarrow> \<lparr>app_label = ''shapes'', model_name = ''shape'', object_name = ''Shape'', verbose_name = ''shape''\<rparr>
      | Circle \<Rightarrow> \<lparr>app_label = ''shapes'', model_name = ''circle'', object_name = ''Circle'', verbose_name = ''circle''\<rparr>
      | Square \<Rightarrow> \<lparr>app_label = ''shapes'', model_name = ''square'', object_name = ''Square'', verbose_name = ''square''\<rparr>
      | Invoice \<Rightarrow> \<lparr>app_label = ''billing'', model_name = ''invoice'', object_name = ''Invoice'', verbose_name = ''invoice''\<rparr>)"

definition example_framework :: "(example_model, example_admin_class) framework" where
  "example_framework =
     \<lparr>py_int = example_int,
      py_long = example_int,
      issubclass_model = (\<lambda>mdl base. base = Shape \<and> mdl \<noteq> Invoice),
      issubclass_ModelAdmin = (\<lambda>ac. ac \<noteq> PlainObject),
      site_register = example_register,
      meta_of = example_meta,
      has_add_permission = (\<lambda>req. GET req ''user'' = Some ''staff''),
      has_change_permission = (\<lambda>req. GET req ''user'' = Some ''staff''),
      add_preserved_filters = (\<lambda>filters opts form_url. form_url @ ''?_changelist_filters='' @ filters),
      resolve = example_resolve,
      form_clean = (\<lambda>form. None),
      add_title = (\<lambda>name. ''Add '' @ name),
      admin_media = (\<lambda>form. []),
      render_to_response = (\<lambda>templates ctx. Inr (HttpResponse (hd templates))),
      super_get_urls = [],
      super_changeform_view = (\<lambda>req oid args. Inr (HttpResponse ''add form'')),
      VERSION = (1, 8)\<rparr>"

definition example_rows :: "int \<rightharpoonup> (string \<rightharpoonup> int)" where
  "example_rows = [7 \<mapsto> [''kind'' \<mapsto> 1], 8 \<mapsto> [''kind'' \<mapsto> 2], 9 \<mapsto> [''kind'' \<mapsto> 5], 10 \<mapsto> Map.empty]"

definition example_row :: "int \<Rightarrow> py_exception + (string \<rightharpoonup> int)" where
  "example_row n = (case example_rows n of None \<Rightarrow> Inl DoesNotExist | Some row \<Rightarrow> Inr row)"

definition example_objects :: "object_id \<Rightarrow> py_exception + (string \<rightharpoonup> int)" where
  "example_objects oid =
     (case oid of
        IdLong n \<Rightarrow> example_row n
      | IdText s \<Rightarrow> (case example_int s of None \<Rightarrow> Inl ValueError | Some n \<Rightarrow> example_row n))"

definition example_class :: "(example_model, example_admin_class) parent_model_admin" where
  "example_class =
     \<lparr>base_model = Shape,
      child_models = Some [(1, Circle, CircleAdmin), (2, Square, SquareAdmin)],
      type_field_name = Some ''kind'',
      add_type_template = None,
      save_on_top = False,
      model = Shape,
      objects_get = example_objects,
      admin_site_registry = Map.empty,
      child_admin_site_registry = Map.empty,
      is_setup = False,
      child_models_dict = None\<rparr>"

text \<open>The instance as \<^verbatim>\<open>__init__\<close> leaves it, and as \<^verbatim>\<open>_lazy_setup\<close> leaves it.\<close>

definition example_new :: "(example_model, example_admin_class) parent_model_admin" where
  "example_new = init example_class Shape Map.empty"

definition example_self :: "(example_model, example_admin_class) parent_model_admin" where
  "example_self = snd (lazy_setup example_framework example_new)"

definition example_request :: "(string \<rightharpoonup> string) \<Rightarrow> request" where
  "example_request query =
     \<lparr>GET = query, POST = Map.empty, META = [''QUERY_STRING'' \<mapsto> ''_popup=1''], http_method = ''GET''\<rparr>"

section \<open>Shared lemmas\<close>

lemma object_id_text_segment: "object_id_text path = segment_before_slash path"
proof (cases "CHR ''/'' \<in> set path")
  case True
  then show ?thesis
    by (simp add: object_id_text_def segment_before_slash_def str_find_def Let_def
        takeWhile_eq_take [symmetric])
next
  case False
  then have "object_id_text path = path"
    by (simp add: object_id_text_def str_find_def Let_def)
  moreover from False have "segment_before_slash path = path"
    unfolding segment_before_slash_def by (induction path) auto
  ultimately show ?thesis
    by (simp only:)
qed

lemma get_real_admin_selected:
  assumes "child_models_dict self = Some d" and "d type_value = Some (mdl, mdl_admin)"
    and "child_admin_site_registry self mdl = Some real_admin"
  shows "get_real_admin self type_value = Inr real_admin"
  using assms by (simp add: get_real_admin_def try_except_def dict_getitem_def)

lemma get_real_admin_unregistered:
  assumes "child_models_dict self = Some d" and "d type_value = Some (mdl, mdl_admin)"
    and "child_admin_site_registry self mdl = None"
  shows "get_real_admin self type_value = Inl RuntimeError"
  using assms by (simp add: get_real_admin_def try_except_def dict_getitem_def)

lemma get_type_by_object_id_found:
  assumes "objects_get self oid = Inr obj" and "type_field_name self = Some field"
    and "obj field = Some type_value"
  shows "get_type_by_object_id self oid = Inr type_value"
  using assms by (simp add: get_type_by_object_id_def try_except_def getattr_def)

lemma get_type_param_parsed:
  "GET req ''type'' = Some s \<Longrightarrow> py_int fw s = Some n \<Longrightarrow> get_type_param fw req = Inr n"
  by (simp add: get_type_param_def)

lemma register_child_is_setup:
  "is_setup (snd (register_child fw mdl mdl_admin self)) = is_setup self"
  by (simp add: register_child_def split: sum.splits)

lemma register_children_is_setup:
  "is_setup (snd (register_children fw cms self)) = is_setup self"
proof (induction cms arbitrary: self)
  case Nil
  show ?case by simp
next
  case (Cons c cms)
  obtain k mdl mdl_admin where c: "c = (k, mdl, mdl_admin)"
    by (cases c) auto
  obtain r self' where step: "register_child fw mdl mdl_admin self = (r, self')"
    by (cases "register_child fw mdl mdl_admin self") auto
  have same: "is_setup self' = is_setup self"
    using register_child_is_setup [of fw mdl mdl_admin self] step by simp
  show ?case
  proof (cases r)
    case (Inl e)
    with c step same show ?thesis by simp
  next
    case (Inr u)
    with c step same Cons.IH [of self'] show ?thesis by simp
  qed
qed

lemma lazy_setup_done: "is_setup self \<Longrightarrow> lazy_setup fw self = (Inr (), self)"
  by (simp add: lazy_setup_def)

lemma lazy_setup_success:
  assumes "fst (lazy_setup fw self) = Inr u"
  shows "is_setup (snd (lazy_setup fw self))"
proof (cases "is_setup self")
  case True
  then show ?thesis by (simp add: lazy_setup_done)
next
  case False
  with assms show ?thesis
    by (auto simp: lazy_setup_def split: sum.splits prod.splits)
qed

lemma lazy_setup_keeps_setup: "is_setup self \<Longrightarrow> is_setup (snd (lazy_setup fw self))"
  by (simp add: lazy_setup_done)

lemma get_urls_state: "snd (get_urls fw self) = snd (lazy_setup fw self)"
  by (simp add: get_urls_def Let_def split: sum.splits prod.splits)

subsection \<open>The example installation, evaluated\<close>

lemma example_self_eq:
  "example_self =
     example_class\<lparr>child_admin_site_registry :=
                     [Circle \<mapsto> example_admin ''circle'', Square \<mapsto> example_admin ''square''],
                   is_setup := True,
                   child_models_dict := Some [1 \<mapsto> (Circle, CircleAdmin), 2 \<mapsto> (Square, SquareAdmin)]\<rparr>"
  by (simp add: example_self_def example_new_def init_def lazy_setup_def get_child_models_def
      example_class_def register_child_def example_framework_def example_register_def
      dict_of_pairs_def)

lemma example_lazy_setup_ok: "fst (lazy_setup example_framework example_new) = Inr ()"
  by (simp add: example_new_def init_def lazy_setup_def get_child_models_def
      example_class_def register_child_def example_framework_def example_register_def)

lemma example_int_simps:
  "example_int ''7'' = Some 7" "example_int ''2'' = Some 2" "example_int ''5'' = Some 5"
  "example_int ''0'' = Some 0" "example_int ''99'' = Some 99" "example_int ''abc'' = None"
  "example_int ''__fk__'' = None"
  by (simp_all add: example_int_def digit_value_def)

lemma example_objects_simps:
  "example_objects (IdText ''7'') = Inr [''kind'' \<mapsto> 1]"
  "example_objects (IdLong 7) = Inr [''kind'' \<mapsto> 1]"
  "example_objects (IdLong 9) = Inr [''kind'' \<mapsto> 5]"
  "example_objects (IdLong 10) = Inr Map.empty"
  "example_objects (IdText ''99'') = Inl DoesNotExist"
  "example_objects (IdLong 99) = Inl DoesNotExist"
  "example_objects (IdText ''__fk__'') = Inl ValueError"
  by (simp_all add: example_objects_def example_row_def example_int_simps example_rows_def)

lemma example_self_fields:
  "objects_get example_self = example_objects"
  "type_field_name example_self = Some ''kind''"
  "child_models example_self = Some [(1, Circle, CircleAdmin), (2, Square, SquareAdmin)]"
  "child_models_dict example_self = Some [1 \<mapsto> (Circle, CircleAdmin), 2 \<mapsto> (Square, SquareAdmin)]"
  "child_admin_site_registry example_self =
     [Circle \<mapsto> example_admin ''circle'', Square \<mapsto> example_admin ''square'']"
  "is_setup example_self"
  "model example_self = Shape"
  by (simp_all add: example_self_eq example_class_def)

section \<open>Dispatch to the child admin\<close>

text \<open>
  C1. For an object id whose \<open>base_model\<close> row exists (the lookup by id returns it),
  \<^verbatim>\<open>change_view\<close> delegates to the
  child admin selected by the value of the row's type-discriminator field: when the row
  has the field \<open>type_field_name\<close> with value \<open>type_value\<close>, \<open>type_value\<close> is a key of
  \<^verbatim>\<open>_child_models\<close> and the child admin site has the admin \<open>real_admin\<close> for that key's
  model, the view returns exactly \<open>real_admin\<close>'s \<^verbatim>\<open>change_view\<close> on the same request,
  object id and remaining arguments. (A type value that selects no child admin is the
  subject of C3 and C6, a missing row of C4.)
\<close>

theorem change_view_delegates:
  assumes "objects_get self oid = Inr obj"
    and "type_field_name self = Some field" and "obj field = Some type_value"
    and "child_models_dict self = Some d" and "d type_value = Some (mdl, mdl_admin)"
    and "child_admin_site_registry self mdl = Some real_admin"
  shows "change_view self req oid args = adm_change_view real_admin req oid args"
  using assms
  by (simp add: change_view_def get_real_admin_selected get_type_by_object_id_found)

theorem change_view_delegates_witness:
  "objects_get example_self (IdText ''7'') = Inr [''kind'' \<mapsto> 1]
   \<and> type_field_name example_self = Some ''kind''
   \<and> child_models_dict example_self = Some [1 \<mapsto> (Circle, CircleAdmin), 2 \<mapsto> (Square, SquareAdmin)]
   \<and> child_admin_site_registry example_self Circle = Some (example_admin ''circle'')
   \<and> change_view example_self (example_request Map.empty) (IdText ''7'') ([], []) =
       adm_change_view (example_admin ''circle'') (example_request Map.empty) (IdText ''7'') ([], [])
   \<and> change_view example_self (example_request Map.empty) (IdText ''7'') ([], []) =
       Inr (HttpResponse ''circle change'')"
proof -
  have h1: "objects_get example_self (IdText ''7'') = Inr [''kind'' \<mapsto> 1]"
    by (simp add: example_self_fields example_objects_simps)
  have h2: "type_field_name example_self = Some ''kind''"
    by (simp add: example_self_fields)
  have h3: "[''kind'' \<mapsto> (1::int)] ''kind'' = Some 1"
    by simp
  have h4: "child_models_dict example_self = Some [1 \<mapsto> (Circle, CircleAdmin), 2 \<mapsto> (Square, SquareAdmin)]"
    by (simp add: example_self_fields)
  have h5: "[1 \<mapsto> (Circle, CircleAdmin), 2 \<mapsto> (Square, SquareAdmin)] (1::int) = Some (Circle, CircleAdmin)"
    by simp
  have h6: "child_admin_site_registry example_self Circle = Some (example_admin ''circle'')"
    by (simp add: example_self_fields)
  note main = change_view_delegates [OF h1 h2 h3 h4 h5 h6, of "example_request Map.empty" "([], [])"]
  have "adm_change_view (example_admin ''circle'') (example_request Map.empty) (IdText ''7'') ([], []) =
          Inr (HttpResponse ''circle change'')"
    by (simp add: example_admin_def)
  with main h1 h2 h4 h6 show ?thesis
    by simp
qed

text \<open>
  C2. For a request whose \<^verbatim>\<open>type\<close> query parameter parses to a nonzero integer \<open>n\<close> that
  is a key of the registered child models (a key of \<^verbatim>\<open>_child_models\<close> whose model has
  the admin \<open>real_admin\<close> in the child admin site), \<^verbatim>\<open>add_view\<close> returns \<open>real_admin\<close>'s
  \<^verbatim>\<open>add_view\<close> result for the same request, with the form URL extended by
  \<^verbatim>\<open>add_preserved_filters\<close> with the filter \<^verbatim>\<open>type=n\<close>. The type-selection form is never
  rendered: the result does not depend on the template renderer or on the form.
\<close>

theorem add_view_delegates:
  assumes "GET req ''type'' = Some s" and "py_int fw s = Some n" and "n \<noteq> 0"
    and "child_models_dict self = Some d" and "d n = Some (mdl, mdl_admin)"
    and "child_admin_site_registry self mdl = Some real_admin"
  shows "add_view fw self req form_url extra =
           adm_add_view real_admin req
             (add_preserved_filters fw (''type='' @ str_of_int n) (meta_of fw (model self)) form_url) extra
         \<and> add_view (fw\<lparr>render_to_response := r, form_clean := fc\<rparr>) self req form_url extra =
             add_view fw self req form_url extra"
  using assms
  by (simp add: add_view_def get_type_param_def get_real_admin_selected urlencode_type_def)

theorem add_view_delegates_witness:
  "GET (example_request [''type'' \<mapsto> ''2'']) ''type'' = Some ''2''
   \<and> py_int example_framework ''2'' = Some 2
   \<and> child_admin_site_registry example_self Square = Some (example_admin ''square'')
   \<and> add_view example_framework example_self (example_request [''type'' \<mapsto> ''2'']) ''/add/'' None =
       adm_add_view (example_admin ''square'') (example_request [''type'' \<mapsto> ''2''])
         (add_preserved_filters example_framework (''type='' @ str_of_int 2)
            (meta_of example_framework (model example_self)) ''/add/'') None
   \<and> add_view example_framework example_self (example_request [''type'' \<mapsto> ''2'']) ''/add/'' None =
       Inr (HttpResponse (''square add /add/?_changelist_filters=type='' @ str_of_int 2))"
proof -
  have h1: "GET (example_request [''type'' \<mapsto> ''2'']) ''type'' = Some ''2''"
    by (simp add: example_request_def)
  have h2: "py_int example_framework ''2'' = Some 2"
    by (simp add: example_framework_def example_int_simps)
  have h3: "(2::int) \<noteq> 0"
    by simp
  have h4: "child_models_dict example_self = Some [1 \<mapsto> (Circle, CircleAdmin), 2 \<mapsto> (Square, SquareAdmin)]"
    by (simp add: example_self_fields)
  have h5: "[1 \<mapsto> (Circle, CircleAdmin), 2 \<mapsto> (Square, SquareAdmin)] (2::int) = Some (Square, SquareAdmin)"
    by simp
  have h6: "child_admin_site_registry example_self Square = Some (example_admin ''square'')"
    by (simp add: example_self_fields)
  note main = add_view_delegates [OF h1 h2 h3 h4 h5 h6, of "''/add/''" None, THEN conjunct1]
  have "adm_add_view (example_admin ''square'') (example_request [''type'' \<mapsto> ''2''])
          (add_preserved_filters example_framework (''type='' @ str_of_int 2)
             (meta_of example_framework (model example_self)) ''/add/'') None =
        Inr (HttpResponse (''square add /add/?_changelist_filters=type='' @ str_of_int 2))"
    by (simp add: example_admin_def example_framework_def)
  with main h1 h2 h6 show ?thesis
    by simp
qed

text \<open>
  C3. The claim: a nonzero type value that is no key of the child models makes
  \<^verbatim>\<open>_get_real_admin\<close> raise Http404. The source reads the dictionary
  \<^verbatim>\<open>self._child_models[type_value]\<close> inside \<^verbatim>\<open>try ... except IndexError: raise Http404\<close>,
  but a dictionary raises KeyError for a missing key, which the handler does not catch.
  In the example, type 5 is no key: \<^verbatim>\<open>_get_real_admin\<close>, \<^verbatim>\<open>change_view\<close> on row 9 (whose
  type is 5) and \<^verbatim>\<open>add_view\<close> with \<^verbatim>\<open>type=5\<close> all raise KeyError, not Http404.
\<close>

theorem unknown_type_raises_KeyError:
  "get_real_admin example_self 5 = Inl KeyError
   \<and> change_view example_self (example_request Map.empty) (IdLong 9) ([], []) = Inl KeyError
   \<and> add_view example_framework example_self (example_request [''type'' \<mapsto> ''5'']) [] None = Inl KeyError
   \<and> KeyError \<noteq> Http404"
proof -
  have a: "get_real_admin example_self 5 = Inl KeyError"
    by (simp add: get_real_admin_def example_self_fields try_except_def dict_getitem_def)
  have "get_type_by_object_id example_self (IdLong 9) = Inr 5"
    by (rule get_type_by_object_id_found [where obj = "[''kind'' \<mapsto> 5]" and field = "''kind''"])
      (simp_all add: example_self_fields example_objects_simps)
  with a have b: "change_view example_self (example_request Map.empty) (IdLong 9) ([], []) = Inl KeyError"
    by (simp add: change_view_def)
  have "get_type_param example_framework (example_request [''type'' \<mapsto> ''5'']) = Inr 5"
    by (rule get_type_param_parsed [where s = "''5''"])
      (simp_all add: example_request_def example_framework_def example_int_simps)
  with a have c: "add_view example_framework example_self (example_request [''type'' \<mapsto> ''5'']) [] None = Inl KeyError"
    by (simp add: add_view_def)
  from a b c show ?thesis
    by simp
qed

section \<open>Errors\<close>




text \<open>
  C5. For a request of a user without add permission, \<^verbatim>\<open>add_type_view\<close> raises
  PermissionDenied: the result is the exception, so no template was rendered and no
  redirect was returned, for any query string, child models, form and renderer.
\<close>

theorem add_type_view_permission_denied:
  assumes "\<not> has_add_permission fw req"
  shows "add_type_view fw self req form_url = Inl PermissionDenied"
  using assms by (simp add: add_type_view_def)

theorem add_type_view_permission_denied_witness:
  "\<not> has_add_permission example_framework (example_request Map.empty)
   \<and> add_type_view example_framework example_self (example_request Map.empty) [] = Inl PermissionDenied"
proof -
  have h: "\<not> has_add_permission example_framework (example_request Map.empty)"
    by (simp add: example_framework_def example_request_def)
  from add_type_view_permission_denied [OF h, of example_self "[]"] h show ?thesis
    by simp
qed

text \<open>
  C6. Misconfiguration is signalled with RuntimeError. \<^verbatim>\<open>register_child\<close> raises it
  whenever \<^verbatim>\<open>_is_setup\<close> is set, in particular on the instance a completed
  \<^verbatim>\<open>_lazy_setup\<close> leaves, and returns the instance as it was (so the child admin site's
  registry is unchanged). \<^verbatim>\<open>_get_real_admin\<close> raises it whenever the type value is a
  key of \<^verbatim>\<open>_child_models\<close> and the key's model has no admin in the child admin site.
\<close>

theorem misconfiguration_raises_RuntimeError:
  "(is_setup self \<longrightarrow> register_child fw mdl mdl_admin self = (Inl RuntimeError, self))
   \<and> (fst (lazy_setup fw self0) = Inr () \<longrightarrow>
        register_child fw mdl mdl_admin (snd (lazy_setup fw self0)) =
          (Inl RuntimeError, snd (lazy_setup fw self0)))
   \<and> (child_models_dict self = Some d \<and> d type_value = Some (mdl', mdl_admin')
        \<and> child_admin_site_registry self mdl' = None \<longrightarrow>
        get_real_admin self type_value = Inl RuntimeError)"
proof (intro conjI impI)
  assume "is_setup self"
  then show "register_child fw mdl mdl_admin self = (Inl RuntimeError, self)"
    by (simp add: register_child_def)
next
  assume "fst (lazy_setup fw self0) = Inr ()"
  then have "is_setup (snd (lazy_setup fw self0))"
    by (rule lazy_setup_success)
  then show "register_child fw mdl mdl_admin (snd (lazy_setup fw self0)) =
      (Inl RuntimeError, snd (lazy_setup fw self0))"
    by (simp add: register_child_def)
next
  assume "child_models_dict self = Some d \<and> d type_value = Some (mdl', mdl_admin')
      \<and> child_admin_site_registry self mdl' = None"
  then show "get_real_admin self type_value = Inl RuntimeError"
    by (simp add: get_real_admin_unregistered)
qed

theorem misconfiguration_raises_RuntimeError_witness:
  "is_setup example_self
   \<and> register_child example_framework Circle CircleAdmin example_self = (Inl RuntimeError, example_self)
   \<and> fst (lazy_setup example_framework example_new) = Inr ()
   \<and> register_child example_framework Circle CircleAdmin (snd (lazy_setup example_framework example_new)) =
       (Inl RuntimeError, snd (lazy_setup example_framework example_new))
   \<and> child_admin_site_registry (example_self\<lparr>child_admin_site_registry := Map.empty\<rparr>) Circle = None
   \<and> get_real_admin (example_self\<lparr>child_admin_site_registry := Map.empty\<rparr>) 1 = Inl RuntimeError"
proof -
  have h1: "is_setup example_self"
    by (simp add: example_self_fields)
  have h2: "fst (lazy_setup example_framework example_new) = Inr ()"
    by (rule example_lazy_setup_ok)
  have h3: "child_models_dict (example_self\<lparr>child_admin_site_registry := Map.empty\<rparr>) =
              Some [1 \<mapsto> (Circle, CircleAdmin), 2 \<mapsto> (Square, SquareAdmin)]
            \<and> [1 \<mapsto> (Circle, CircleAdmin), 2 \<mapsto> (Square, SquareAdmin)] (1::int) = Some (Circle, CircleAdmin)
            \<and> child_admin_site_registry (example_self\<lparr>child_admin_site_registry := Map.empty\<rparr>) Circle = None"
    by (simp add: example_self_fields)
  note main = misconfiguration_raises_RuntimeError
    [where self = example_self and fw = example_framework and mdl = Circle and mdl_admin = CircleAdmin
       and ?self0.0 = example_new]
  note main' = misconfiguration_raises_RuntimeError
    [where self = "example_self\<lparr>child_admin_site_registry := Map.empty\<rparr>"
       and d = "[1 \<mapsto> (Circle, CircleAdmin), 2 \<mapsto> (Square, SquareAdmin)]" and type_value = 1
       and mdl' = Circle and mdl_admin' = CircleAdmin]
  from main h1 h2 have a:
    "register_child example_framework Circle CircleAdmin example_self = (Inl RuntimeError, example_self)
     \<and> register_child example_framework Circle CircleAdmin (snd (lazy_setup example_framework example_new)) =
       (Inl RuntimeError, snd (lazy_setup example_framework example_new))"
    by blast
  from main' h3 have b: "get_real_admin (example_self\<lparr>child_admin_site_registry := Map.empty\<rparr>) 1 = Inl RuntimeError"
    by blast
  from a b h1 h2 h3 show ?thesis
    by blast
qed













section \<open>The catch-all view\<close>

lemma subclass_view_no_type:
  assumes "case GET req ''type'' of None \<Rightarrow> True | Some s \<Rightarrow> py_int fw s = Some 0"
  shows "subclass_view fw self req path =
     (case py_long fw (segment_before_slash path) of
        None \<Rightarrow> Inl Http404
      | Some n \<Rightarrow>
          (case get_type_by_object_id self (IdLong n) of
             Inl e \<Rightarrow> Inl e
           | Inr type_value \<Rightarrow>
               (case get_real_admin self type_value of
                  Inl e \<Rightarrow> Inl e
                | Inr real_admin \<Rightarrow>
                    (case resolve fw (adm_get_urls real_admin) path of
                       Inl e \<Rightarrow> Inl e
                     | Inr None \<Rightarrow> Inl Http404
                     | Inr (Some m) \<Rightarrow> func m req (match_args m)))))"
proof -
  from assms have "get_type_param fw req = Inr 0"
    by (cases "GET req ''type''") (simp_all add: get_type_param_def)
  then show ?thesis
    by (simp add: subclass_view_def object_id_text_segment split: option.splits sum.splits)
qed

text \<open>
  C8. For a request to \<^verbatim>\<open>subclass_view\<close> without a nonzero \<^verbatim>\<open>type\<close> query parameter (the
  parameter is absent, or parses to 0). If the path's segment before the first \<^verbatim>\<open>/\<close>
  is a numeric object id \<open>n\<close>, the view resolves the type from the type-discriminator
  field of the row \<open>n\<close> and dispatches the path through the URL resolver of the child
  admin selected by that type: the result is the resolver's answer over that admin's
  URL patterns, the matched view called with the request and the matched arguments.
  If the segment is not numeric, the view raises Http404.
\<close>

theorem subclass_view_without_type:
  assumes "case GET req ''type'' of None \<Rightarrow> True | Some s \<Rightarrow> py_int fw s = Some 0"
  shows "(py_long fw (segment_before_slash path) = Some n
          \<and> objects_get self (IdLong n) = Inr obj
          \<and> type_field_name self = Some field \<and> obj field = Some type_value
          \<and> child_models_dict self = Some d \<and> d type_value = Some (mdl, mdl_admin)
          \<and> child_admin_site_registry self mdl = Some real_admin \<longrightarrow>
          subclass_view fw self req path =
            (case resolve fw (adm_get_urls real_admin) path of
               Inl e \<Rightarrow> Inl e
             | Inr None \<Rightarrow> Inl Http404
             | Inr (Some m) \<Rightarrow> func m req (match_args m)))
     \<and> (py_long fw (segment_before_slash path) = None \<longrightarrow>
          subclass_view fw self req path = Inl Http404)"
proof (intro conjI impI)
  assume h: "py_long fw (segment_before_slash path) = Some n
      \<and> objects_get self (IdLong n) = Inr obj
      \<and> type_field_name self = Some field \<and> obj field = Some type_value
      \<and> child_models_dict self = Some d \<and> d type_value = Some (mdl, mdl_admin)
      \<and> child_admin_site_registry self mdl = Some real_admin"
  then have t: "get_type_by_object_id self (IdLong n) = Inr type_value"
    by (simp add: get_type_by_object_id_found)
  from h have a: "get_real_admin self type_value = Inr real_admin"
    by (simp add: get_real_admin_selected)
  from h t a show "subclass_view fw self req path =
      (case resolve fw (adm_get_urls real_admin) path of
         Inl e \<Rightarrow> Inl e
       | Inr None \<Rightarrow> Inl Http404
       | Inr (Some m) \<Rightarrow> func m req (match_args m))"
    by (simp add: subclass_view_no_type [OF assms])
next
  assume "py_long fw (segment_before_slash path) = None"
  then show "subclass_view fw self req path = Inl Http404"
    by (simp add: subclass_view_no_type [OF assms])
qed

theorem subclass_view_without_type_witness:
  "GET (example_request Map.empty) ''type'' = None
   \<and> py_long example_framework (segment_before_slash ''7/history/'') = Some 7
   \<and> objects_get example_self (IdLong 7) = Inr [''kind'' \<mapsto> 1]
   \<and> child_admin_site_registry example_self Circle = Some (example_admin ''circle'')
   \<and> subclass_view example_framework example_self (example_request Map.empty) ''7/history/'' =
       Inr (HttpResponse ''circle_change 7/history/'')
   \<and> py_long example_framework (segment_before_slash ''abc/'') = None
   \<and> subclass_view example_framework example_self (example_request Map.empty) ''abc/'' = Inl Http404"
proof -
  have g: "GET (example_request Map.empty) ''type'' = None"
    by (simp add: example_request_def)
  then have h0: "case GET (example_request Map.empty) ''type'' of None \<Rightarrow> True
      | Some s \<Rightarrow> py_int example_framework s = Some 0"
    by simp
  have s1: "segment_before_slash ''7/history/'' = ''7''"
    by (simp add: segment_before_slash_def)
  have s2: "segment_before_slash ''abc/'' = ''abc''"
    by (simp add: segment_before_slash_def)
  have h1: "py_long example_framework (segment_before_slash ''7/history/'') = Some 7"
    by (simp add: s1 example_framework_def example_int_simps)
  have h2: "objects_get example_self (IdLong 7) = Inr [''kind'' \<mapsto> 1]"
    by (simp add: example_self_fields example_objects_simps)
  have h3: "type_field_name example_self = Some ''kind'' \<and> [''kind'' \<mapsto> (1::int)] ''kind'' = Some 1"
    by (simp add: example_self_fields)
  have h4: "child_models_dict example_self = Some [1 \<mapsto> (Circle, CircleAdmin), 2 \<mapsto> (Square, SquareAdmin)]
      \<and> [1 \<mapsto> (Circle, CircleAdmin), 2 \<mapsto> (Square, SquareAdmin)] (1::int) = Some (Circle, CircleAdmin)"
    by (simp add: example_self_fields)
  have h5: "child_admin_site_registry example_self Circle = Some (example_admin ''circle'')"
    by (simp add: example_self_fields)
  have h6: "py_long example_framework (segment_before_slash ''abc/'') = None"
    by (simp add: s2 example_framework_def example_int_simps)
  note numeric = subclass_view_without_type
    [OF h0, where path = "''7/history/''" and n = 7 and self = example_self
       and obj = "[''kind'' \<mapsto> 1]" and field = "''kind''" and type_value = 1
       and d = "[1 \<mapsto> (Circle, CircleAdmin), 2 \<mapsto> (Square, SquareAdmin)]"
       and mdl = Circle and mdl_admin = CircleAdmin and real_admin = "example_admin ''circle''",
     THEN conjunct1]
  note not_numeric = subclass_view_without_type
    [OF h0, where path = "''abc/''" and self = example_self, THEN conjunct2]
  from numeric h1 h2 h3 h4 h5
  have "subclass_view example_framework example_self (example_request Map.empty) ''7/history/'' =
      (case resolve example_framework (adm_get_urls (example_admin ''circle'')) ''7/history/'' of
         Inl e \<Rightarrow> Inl e
       | Inr None \<Rightarrow> Inl Http404
       | Inr (Some m) \<Rightarrow> func m (example_request Map.empty) (match_args m))"
    by blast
  then have a: "subclass_view example_framework example_self (example_request Map.empty) ''7/history/'' =
      Inr (HttpResponse ''circle_change 7/history/'')"
    by (simp add: example_framework_def example_resolve_def example_admin_def)
  from not_numeric h6
  have b: "subclass_view example_framework example_self (example_request Map.empty) ''abc/'' = Inl Http404"
    by blast
  from a b g h1 h2 h5 h6 show ?thesis
    by blast
qed

section \<open>The type-selection view\<close>

text \<open>
  C9. For a permitted request, when exactly one child type choice exists (the child
  models are one entry, with key \<open>key\<close>), \<^verbatim>\<open>add_type_view\<close> returns at once the redirect
  to \<^verbatim>\<open>?type=key\<close>, followed by \<^verbatim>\<open>&\<close> and the request's query string when that is not
  empty. The form is neither built nor rendered: the result does not depend on the
  form's validation or on the template renderer.
\<close>

theorem single_choice_redirects:
  assumes "has_add_permission fw req" and "META req ''QUERY_STRING'' = Some qs"
    and "child_models self = Some [(key, mdl, mdl_admin)]"
  shows "get_child_type_choices fw self = Inr [(key, verbose_name (meta_of fw mdl))]
     \<and> add_type_view fw self req form_url =
         Inr (HttpResponseRedirect (''?type='' @ str_of_int key @ (if qs = [] then [] else ''&'' @ qs)))
     \<and> add_type_view (fw\<lparr>render_to_response := r, form_clean := fc\<rparr>) self req form_url =
         add_type_view fw self req form_url"
  using assms
  by (simp add: add_type_view_def get_child_type_choices_def get_child_models_def dict_getitem_def)

theorem single_choice_redirects_witness:
  "has_add_permission example_framework (example_request [''user'' \<mapsto> ''staff''])
   \<and> META (example_request [''user'' \<mapsto> ''staff'']) ''QUERY_STRING'' = Some ''_popup=1''
   \<and> add_type_view example_framework (example_self\<lparr>child_models := Some [(1, Circle, CircleAdmin)]\<rparr>)
       (example_request [''user'' \<mapsto> ''staff'']) [] =
       Inr (HttpResponseRedirect (''?type='' @ str_of_int 1 @ ''&_popup=1''))"
proof -
  have h1: "has_add_permission example_framework (example_request [''user'' \<mapsto> ''staff''])"
    by (simp add: example_framework_def example_request_def)
  have h2: "META (example_request [''user'' \<mapsto> ''staff'']) ''QUERY_STRING'' = Some ''_popup=1''"
    by (simp add: example_request_def)
  have h3: "child_models (example_self\<lparr>child_models := Some [(1, Circle, CircleAdmin)]\<rparr>) =
      Some [(1, Circle, CircleAdmin)]"
    by simp
  from single_choice_redirects [OF h1 h2 h3, where form_url = "[]"] h1 h2 show ?thesis
    by simp
qed

section \<open>Lazy setup\<close>

text \<open>
  C10. \<^verbatim>\<open>_lazy_setup\<close> is idempotent and \<^verbatim>\<open>_is_setup\<close> is monotone. Once \<^verbatim>\<open>_is_setup\<close> is
  True, \<^verbatim>\<open>_lazy_setup\<close> returns at once and leaves the whole instance, so the child admin
  site's registry and \<^verbatim>\<open>_child_models\<close>, unchanged; this is the case after a call that
  completed. The operations that assign to the instance (\<^verbatim>\<open>register_child\<close>,
  \<^verbatim>\<open>_lazy_setup\<close>, \<^verbatim>\<open>get_urls\<close>) never reset \<^verbatim>\<open>_is_setup\<close>; only \<^verbatim>\<open>__init__\<close>, which
  creates the instance, sets it to False, and the views assign nothing.
\<close>

theorem lazy_setup_idempotent:
  "(is_setup self \<longrightarrow> lazy_setup fw self = (Inr (), self))
   \<and> (fst (lazy_setup fw self) = Inr () \<longrightarrow>
        lazy_setup fw (snd (lazy_setup fw self)) = (Inr (), snd (lazy_setup fw self)))
   \<and> (is_setup self \<longrightarrow>
        is_setup (snd (register_child fw mdl mdl_admin self))
        \<and> is_setup (snd (lazy_setup fw self))
        \<and> is_setup (snd (get_urls fw self)))"
proof (intro conjI impI)
  assume "is_setup self"
  then show "lazy_setup fw self = (Inr (), self)"
    by (rule lazy_setup_done)
next
  assume "fst (lazy_setup fw self) = Inr ()"
  then have "is_setup (snd (lazy_setup fw self))"
    by (rule lazy_setup_success)
  then show "lazy_setup fw (snd (lazy_setup fw self)) = (Inr (), snd (lazy_setup fw self))"
    by (rule lazy_setup_done)
next
  assume "is_setup self"
  then show "is_setup (snd (register_child fw mdl mdl_admin self))"
    by (simp add: register_child_is_setup)
next
  assume "is_setup self"
  then show "is_setup (snd (lazy_setup fw self))"
    by (rule lazy_setup_keeps_setup)
next
  assume "is_setup self"
  then show "is_setup (snd (get_urls fw self))"
    by (simp add: get_urls_state lazy_setup_keeps_setup)
qed

theorem lazy_setup_idempotent_witness:
  "\<not> is_setup example_new
   \<and> fst (lazy_setup example_framework example_new) = Inr ()
   \<and> lazy_setup example_framework example_self = (Inr (), example_self)
   \<and> is_setup example_self
   \<and> is_setup (snd (register_child example_framework Circle CircleAdmin example_self))
   \<and> is_setup (snd (lazy_setup example_framework example_self))
   \<and> is_setup (snd (get_urls example_framework example_self))"
proof -
  have h0: "\<not> is_setup example_new"
    by (simp add: example_new_def init_def)
  have h1: "fst (lazy_setup example_framework example_new) = Inr ()"
    by (rule example_lazy_setup_ok)
  have h2: "is_setup example_self"
    by (simp add: example_self_fields)
  note first = lazy_setup_idempotent [where fw = example_framework and self = example_new]
  note later = lazy_setup_idempotent
    [where fw = example_framework and self = example_self and mdl = Circle and mdl_admin = CircleAdmin]
  from first h1 have "lazy_setup example_framework example_self = (Inr (), example_self)"
    unfolding example_self_def by blast
  with later h0 h1 h2 show ?thesis
    by blast
qed

end
